theory Spec2Isabelle
  imports Main "HOL-Library.AList"
begin

section \<open>Configuration of the reader: the dataclass \<open>AudioReader\<close>\<close>

text \<open>
  The dataclass of \<^verbatim>\<open>database.py\<close> (lines 91--127): eight boolean fields, one per
  stream that can be materialised, plus \<open>sync_speech_source\<close>.
\<close>

record AudioReader =
  observation :: bool
  speech_source :: bool
  sync_speech_source :: bool
  speech_reverberation_early :: bool
  speech_reverberation_tail :: bool
  speech_image :: bool
  noise_image :: bool
  rir :: bool

text \<open>
  \<^verbatim>\<open>__post_init__\<close> (lines 129--132): a requested speech image switches both
  reverberation components on.
\<close>

definition post_init :: "AudioReader \<Rightarrow> AudioReader" where
  "post_init self =
     (if speech_image self
      then self\<lparr>speech_reverberation_early := True, speech_reverberation_tail := True\<rparr>
      else self)"

text \<open>
  Construction: the generated \<^verbatim>\<open>__init__\<close> stores the eight arguments in declaration
  order and then runs \<^verbatim>\<open>__post_init__\<close>.
\<close>

definition AudioReader_init ::
  "bool \<Rightarrow> bool \<Rightarrow> bool \<Rightarrow> bool \<Rightarrow> bool \<Rightarrow> bool \<Rightarrow> bool \<Rightarrow> bool \<Rightarrow> AudioReader" where
  "AudioReader_init obs src sync early tail img noise r =
     post_init \<lparr>observation = obs, speech_source = src, sync_speech_source = sync,
                speech_reverberation_early = early, speech_reverberation_tail = tail,
                speech_image = img, noise_image = noise, rir = r\<rparr>"

text \<open>The defaults of the dataclass: everything but \<open>rir\<close>.\<close>

definition AudioReader_default :: AudioReader where
  "AudioReader_default = AudioReader_init True True True True True True True False"

section \<open>Errors and Python values\<close>

text \<open>
  Exceptions are values. The constructors are the Python exception classes that the source
  or the libraries it calls can raise; \<open>ShapeMismatchError\<close> is the error kind that the
  specification gives to the synchroniser, whose code is not among the sources.
\<close>

datatype err =
    KeyError string
  | TypeError
  | IndexError
  | ValueError string
  | RuntimeError string
  | ShapeMismatchError

definition and_then :: "err + 'a \<Rightarrow> ('a \<Rightarrow> err + 'b) \<Rightarrow> err + 'b" where
  "and_then m f = (case m of Inl e \<Rightarrow> Inl e | Inr v \<Rightarrow> f v)"

text \<open>
  The values that occur in an example record and in the loaded bundle. A \<open>dict\<close> is an
  association list in insertion order (keys are strings, as in the JSON catalogue), a
  tuple or list is \<open>PList\<close>, a numeric \<^verbatim>\<open>numpy.ndarray\<close> is \<open>PArr shape data\<close> with the
  elements in row-major order, and \<open>PObj\<close> is a one-dimensional \<^verbatim>\<open>ndarray\<close> of objects.
  The type parameter is the type of a sample (and of a Python float).
\<close>

datatype 'a py =
    PNone
  | PBool bool
  | PInt int
  | PFloat 'a
  | PStr string
  | PList "'a py list"
  | PDict "(string \<times> 'a py) list"
  | PArr "nat list" "'a list"
  | PObj "'a py list"

text \<open>Subscription by a string key, \<^verbatim>\<open>d[k]\<close>, and item assignment, \<^verbatim>\<open>d[k] = v\<close>.\<close>

fun getitem :: "'a py \<Rightarrow> string \<Rightarrow> err + 'a py" where
  "getitem (PDict kvs) k = (case map_of kvs k of None \<Rightarrow> Inl (KeyError k) | Some v \<Rightarrow> Inr v)"
| "getitem (PArr sh xs) k = Inl IndexError"
| "getitem (PObj vs) k = Inl IndexError"
| "getitem _ k = Inl TypeError"

definition setitem :: "string \<Rightarrow> 'a py \<Rightarrow> (string \<times> 'a py) list \<Rightarrow> (string \<times> 'a py) list" where
  "setitem k v d = AList.update k v d"

section \<open>The libraries the source calls\<close>

text \<open>
  What lies outside the repository is a parameter of the model:
  \<^item> \<open>soundfile_read\<close> is \<^verbatim>\<open>soundfile.read(file)\<close>: the shape and the samples of the file,
    in the file's own order, or the exception it raises;
  \<^item> \<open>array_other\<close> is \<^verbatim>\<open>np.array\<close> on a non-empty list that is not a list of numeric
    arrays of one shape (its result depends on the version of numpy);
  \<^item> \<open>add_other\<close> is \<^verbatim>\<open>+\<close> on two values that are not both numeric arrays.
\<close>

record 'a library =
  soundfile_read :: "'a py \<Rightarrow> err + nat list \<times> 'a list"
  array_other :: "'a py list \<Rightarrow> err + 'a py"
  add_other :: "'a py \<Rightarrow> 'a py \<Rightarrow> err + 'a py"

subsection \<open>Row-major indexing\<close>

fun unravel :: "nat list \<Rightarrow> nat \<Rightarrow> nat list" where
  "unravel [] i = []"
| "unravel (d # sh) i = (i div prod_list sh) # unravel sh (i mod prod_list sh)"

fun ravel :: "nat list \<Rightarrow> nat list \<Rightarrow> nat" where
  "ravel (d # sh) (j # js) = j * prod_list sh + ravel sh js"
| "ravel _ _ = 0"

text \<open>\<^verbatim>\<open>data.T\<close>: the axes in reverse order.\<close>

definition transpose_T :: "nat list \<Rightarrow> 'a list \<Rightarrow> 'a py" where
  "transpose_T sh xs =
     PArr (rev sh) (map (\<lambda>i. xs ! ravel sh (rev (unravel (rev sh) i))) [0..<prod_list sh])"

subsection \<open>\<^verbatim>\<open>np.array\<close> on a list\<close>

fun arr_shape :: "'a py \<Rightarrow> nat list option" where
  "arr_shape (PArr sh xs) = Some sh"
| "arr_shape _ = None"

fun arr_data :: "'a py \<Rightarrow> 'a list" where
  "arr_data (PArr sh xs) = xs"
| "arr_data _ = []"

definition np_array :: "'a library \<Rightarrow> 'a py list \<Rightarrow> err + 'a py" where
  "np_array L vs =
     (case vs of
        [] \<Rightarrow> Inr (PArr [0] [])
      | v # _ \<Rightarrow>
          (case arr_shape v of
             Some sh \<Rightarrow>
               if list_all (\<lambda>w. arr_shape w = Some sh) vs
               then Inr (PArr (length vs # sh) (concat (map arr_data vs)))
               else array_other L vs
           | None \<Rightarrow> array_other L vs))"


subsection \<open>\<^verbatim>\<open>+\<close> on arrays: broadcasting\<close>

text \<open>
  The shapes are aligned at their last axis; two sizes are compatible when they are equal
  or one of them is 1, and a missing axis counts as 1.
\<close>

fun broadcast_rev :: "nat list \<Rightarrow> nat list \<Rightarrow> nat list option" where
  "broadcast_rev [] ys = Some ys"
| "broadcast_rev (x # xs) [] = Some (x # xs)"
| "broadcast_rev (x # xs) (y # ys) =
     (if x = y \<or> y = 1 then map_option ((#) x) (broadcast_rev xs ys)
      else if x = 1 then map_option ((#) y) (broadcast_rev xs ys)
      else None)"

definition broadcast_shapes :: "nat list \<Rightarrow> nat list \<Rightarrow> nat list option" where
  "broadcast_shapes s1 s2 = map_option rev (broadcast_rev (rev s1) (rev s2))"

text \<open>The flat position, in an operand of shape \<open>sh\<close>, of the element used at \<open>idx\<close>.\<close>

definition bc_index :: "nat list \<Rightarrow> nat list \<Rightarrow> nat" where
  "bc_index sh idx =
     ravel sh (map2 (\<lambda>d j. if d = 1 then 0 else j) sh (drop (length idx - length sh) idx))"

definition np_add :: "('a::plus) library \<Rightarrow> 'a py \<Rightarrow> 'a py \<Rightarrow> err + 'a py" where
  "np_add L a b =
     (case (a, b) of
        (PArr s1 xs, PArr s2 ys) \<Rightarrow>
          (case broadcast_shapes s1 s2 of
             None \<Rightarrow> Inl (ValueError ''operands could not be broadcast together'')
           | Some out \<Rightarrow>
               Inr (PArr out (map (\<lambda>i. xs ! bc_index s1 (unravel out i)
                                       + ys ! bc_index s2 (unravel out i))
                                  [0..<prod_list out])))
      | _ \<Rightarrow> add_other L a b)"

section \<open>The stream loader: \<^verbatim>\<open>AudioReader._rec_audio_read\<close>\<close>

text \<open>
  Lines 134--144. A tuple or list is read element by element and handed to \<^verbatim>\<open>np.array\<close>,
  a dict is read value by value into a dict with the same keys, and anything else is a
  file reference: it is read and transposed. The first exception ends the traversal.
\<close>

definition read_file :: "'a library \<Rightarrow> 'a py \<Rightarrow> err + 'a py" where
  "read_file L file = and_then (soundfile_read L file) (\<lambda>(sh, xs). Inr (transpose_T sh xs))"

function rec_audio_read :: "'a library \<Rightarrow> 'a py \<Rightarrow> err + 'a py"
  and read_each :: "'a library \<Rightarrow> 'a py list \<Rightarrow> err + 'a py list"
  and read_items :: "'a library \<Rightarrow> (string \<times> 'a py) list \<Rightarrow> err + (string \<times> 'a py) list"
where
  "rec_audio_read L (PList fs) = and_then (read_each L fs) (np_array L)"
| "rec_audio_read L (PDict kvs) = and_then (read_items L kvs) (\<lambda>r. Inr (PDict r))"
| "rec_audio_read L PNone = read_file L PNone"
| "rec_audio_read L (PBool b) = read_file L (PBool b)"
| "rec_audio_read L (PInt i) = read_file L (PInt i)"
| "rec_audio_read L (PFloat x) = read_file L (PFloat x)"
| "rec_audio_read L (PStr s) = read_file L (PStr s)"
| "rec_audio_read L (PArr sh ys) = read_file L (PArr sh ys)"
| "rec_audio_read L (PObj vs) = read_file L (PObj vs)"
| "read_each L [] = Inr []"
| "read_each L (f # fs) =
     and_then (rec_audio_read L f) (\<lambda>v. and_then (read_each L fs) (\<lambda>vs. Inr (v # vs)))"
| "read_items L [] = Inr []"
| "read_items L ((k, v) # kvs) =
     and_then (rec_audio_read L v) (\<lambda>w. and_then (read_items L kvs) (\<lambda>r. Inr ((k, w) # r)))"
  by pat_completeness auto
termination
  by (relation "measure (\<lambda>x. case x of
          Inl (L, v) \<Rightarrow> size v
        | Inr (Inl (L, vs)) \<Rightarrow> size_list size vs
        | Inr (Inr (L, kvs)) \<Rightarrow> size_list (size_prod (\<lambda>_. 0) size) kvs)") auto

text \<open>The file references of a path tree, in the order in which the loader reads them.\<close>

fun is_file :: "'a py \<Rightarrow> bool" where
  "is_file (PList fs) = False"
| "is_file (PDict kvs) = False"
| "is_file _ = True"

function leaves :: "'a py \<Rightarrow> 'a py list"
  and leaves_each :: "'a py list \<Rightarrow> 'a py list"
  and leaves_items :: "(string \<times> 'a py) list \<Rightarrow> 'a py list"
where
  "leaves (PList fs) = leaves_each fs"
| "leaves (PDict kvs) = leaves_items kvs"
| "leaves PNone = [PNone]"
| "leaves (PBool b) = [PBool b]"
| "leaves (PInt i) = [PInt i]"
| "leaves (PFloat x) = [PFloat x]"
| "leaves (PStr s) = [PStr s]"
| "leaves (PArr sh ys) = [PArr sh ys]"
| "leaves (PObj vs) = [PObj vs]"
| "leaves_each [] = []"
| "leaves_each (f # fs) = leaves f @ leaves_each fs"
| "leaves_items [] = []"
| "leaves_items ((k, v) # kvs) = leaves v @ leaves_items kvs"
  by pat_completeness auto
termination
  by (relation "measure (\<lambda>x. case x of
          Inl v \<Rightarrow> size v
        | Inr (Inl vs) \<Rightarrow> size_list size vs
        | Inr (Inr kvs) \<Rightarrow> size_list (size_prod (\<lambda>_. 0) size) kvs)") auto

section \<open>The synchroniser\<close>

text \<open>
  Modelled from the spec: \<^verbatim>\<open>synchronize_speech_source\<close> of \<^verbatim>\<open>sms_wsj.database.utils\<close>,
  which \<^verbatim>\<open>__call__\<close> imports at line 157, is not among the sources. The specification
  (section 4.2) gives, for a source \<open>x\<close> of length \<open>L\<close>, an offset \<open>off\<close> and a target
  length \<open>T\<close>, the valid source range from \<open>lo = max 0 (- off)\<close> to
  \<open>hi = min L (T - off)\<close>; the samples of that range are placed from position
  \<open>off + lo\<close> on, every other position is zero, and an empty range gives a row of zeros.
\<close>

definition sync_lo :: "int \<Rightarrow> int" where
  "sync_lo off = max 0 (- off)"

definition sync_hi :: "nat \<Rightarrow> int \<Rightarrow> int \<Rightarrow> int" where
  "sync_hi len T off = min (int len) (T - off)"

definition sync_row :: "('a::zero) list \<Rightarrow> int \<Rightarrow> int \<Rightarrow> 'a list" where
  "sync_row x off T =
     (let lo = sync_lo off; hi = sync_hi (length x) T off in
      if hi \<le> lo then replicate (nat T) 0
      else replicate (nat (off + lo)) 0
           @ take (nat (hi - lo)) (drop (nat lo) x)
           @ replicate (nat (T - (off + hi))) 0)"

text \<open>
  Modelled from the spec: the arguments of the synchroniser are a sequence of
  one-dimensional arrays, a sequence of integers of the same length and an integer. The
  result has one row per speaker. A length mismatch is the specification's
  \<open>ShapeMismatchError\<close> (section 7); the specification says nothing about arguments
  of other types, which the model refuses with \<open>TypeError\<close>.
\<close>

fun as_seq :: "'a py \<Rightarrow> 'a py list option" where
  "as_seq (PList vs) = Some vs"
| "as_seq (PObj vs) = Some vs"
| "as_seq (PArr (n # sh) xs) =
     Some (map (\<lambda>i. PArr sh (take (prod_list sh) (drop (i * prod_list sh) xs))) [0..<n])"
| "as_seq _ = None"

fun as_row :: "'a py \<Rightarrow> 'a list option" where
  "as_row (PArr [n] xs) = Some xs"
| "as_row _ = None"

fun as_int :: "'a py \<Rightarrow> int option" where
  "as_int (PInt i) = Some i"
| "as_int _ = None"

definition as_rows :: "'a py \<Rightarrow> 'a list list option" where
  "as_rows v = (case as_seq v of None \<Rightarrow> None | Some vs \<Rightarrow> those (map as_row vs))"

definition as_ints :: "'a py \<Rightarrow> int list option" where
  "as_ints v = (case as_seq v of None \<Rightarrow> None | Some vs \<Rightarrow> those (map as_int vs))"

definition synchronize_speech_source :: "('a::zero) py \<Rightarrow> 'a py \<Rightarrow> 'a py \<Rightarrow> err + 'a py" where
  "synchronize_speech_source original_source offset T =
     (case (as_rows original_source, as_ints offset, as_int T) of
        (Some rows, Some offs, Some t) \<Rightarrow>
          if length rows \<noteq> length offs then Inl ShapeMismatchError
          else Inr (PArr [length rows, nat t]
                      (concat (map2 (\<lambda>x off. sync_row x off t) rows offs)))
      | _ \<Rightarrow> Inl TypeError)"

section \<open>The per-example transform: \<^verbatim>\<open>AudioReader.__call__\<close>\<close>

text \<open>
  Lines 146--185, statement by statement. The dict \<open>data\<close> is threaded through the
  steps; each step either extends it or ends the call with the exception raised.
  \<open>load_stream\<close> is the statement \<^verbatim>\<open>data[k] = self._rec_audio_read(path[k])\<close>.
\<close>

definition load_stream ::
  "'a library \<Rightarrow> 'a py \<Rightarrow> string \<Rightarrow> (string \<times> 'a py) list \<Rightarrow> err + (string \<times> 'a py) list" where
  "load_stream L path k data =
     and_then (getitem path k) (\<lambda>file.
     and_then (rec_audio_read L file) (\<lambda>v.
     Inr (setitem k v data)))"

definition step_observation ::
  "AudioReader \<Rightarrow> 'a library \<Rightarrow> 'a py \<Rightarrow> (string \<times> 'a py) list \<Rightarrow> err + (string \<times> 'a py) list" where
  "step_observation self L path data =
     (if observation self then load_stream L path ''observation'' data else Inr data)"

definition step_sync ::
  "(string \<times> ('a::zero) py) list \<Rightarrow> (string \<times> 'a py) list \<Rightarrow> err + (string \<times> 'a py) list" where
  "step_sync example data =
     and_then (getitem (PDict data) ''speech_source'') (\<lambda>src.
     and_then (getitem (PDict example) ''offset'') (\<lambda>off.
     and_then (getitem (PDict example) ''num_samples'') (\<lambda>ns.
     and_then (getitem ns ''observation'') (\<lambda>t.
     and_then (synchronize_speech_source src off t) (\<lambda>v.
     Inr (setitem ''speech_source'' v data))))))"

definition step_speech_source ::
  "AudioReader \<Rightarrow> ('a::zero) library \<Rightarrow> (string \<times> 'a py) list \<Rightarrow> 'a py
     \<Rightarrow> (string \<times> 'a py) list \<Rightarrow> err + (string \<times> 'a py) list" where
  "step_speech_source self L example path data =
     (if speech_source self
      then and_then (load_stream L path ''speech_source'' data) (\<lambda>data1.
             if sync_speech_source self then step_sync example data1 else Inr data1)
      else Inr data)"

definition step_early ::
  "AudioReader \<Rightarrow> 'a library \<Rightarrow> 'a py \<Rightarrow> (string \<times> 'a py) list \<Rightarrow> err + (string \<times> 'a py) list" where
  "step_early self L path data =
     (if speech_reverberation_early self
      then load_stream L path ''speech_reverberation_early'' data else Inr data)"

definition step_tail ::
  "AudioReader \<Rightarrow> 'a library \<Rightarrow> 'a py \<Rightarrow> (string \<times> 'a py) list \<Rightarrow> err + (string \<times> 'a py) list" where
  "step_tail self L path data =
     (if speech_reverberation_tail self
      then load_stream L path ''speech_reverberation_tail'' data else Inr data)"

definition step_image ::
  "AudioReader \<Rightarrow> ('a::plus) library \<Rightarrow> (string \<times> 'a py) list \<Rightarrow> err + (string \<times> 'a py) list" where
  "step_image self L data =
     (if speech_image self
      then and_then (getitem (PDict data) ''speech_reverberation_early'') (\<lambda>early.
           and_then (getitem (PDict data) ''speech_reverberation_tail'') (\<lambda>tail.
           and_then (np_add L early tail) (\<lambda>v.
           Inr (setitem ''speech_image'' v data))))
      else Inr data)"

definition step_noise ::
  "AudioReader \<Rightarrow> 'a library \<Rightarrow> 'a py \<Rightarrow> (string \<times> 'a py) list \<Rightarrow> err + (string \<times> 'a py) list" where
  "step_noise self L path data =
     (if noise_image self then load_stream L path ''noise_image'' data else Inr data)"

definition step_rir ::
  "AudioReader \<Rightarrow> 'a library \<Rightarrow> 'a py \<Rightarrow> (string \<times> 'a py) list \<Rightarrow> err + (string \<times> 'a py) list" where
  "step_rir self L path data =
     (if rir self then load_stream L path ''rir'' data else Inr data)"

text \<open>The dict \<open>data\<close> as it stands before line 171, where the speech image is formed.\<close>

definition loaded_streams ::
  "AudioReader \<Rightarrow> ('a::{zero,plus}) library \<Rightarrow> (string \<times> 'a py) list \<Rightarrow> 'a py
     \<Rightarrow> err + (string \<times> 'a py) list" where
  "loaded_streams self L example path =
     and_then (step_observation self L path []) (\<lambda>d1.
     and_then (step_speech_source self L example path d1) (\<lambda>d2.
     and_then (step_early self L path d2) (\<lambda>d3.
     step_tail self L path d3)))"

text \<open>The dict \<open>data\<close> as it stands at line 183.\<close>

definition audio_bundle ::
  "AudioReader \<Rightarrow> ('a::{zero,plus}) library \<Rightarrow> (string \<times> 'a py) list
     \<Rightarrow> err + (string \<times> 'a py) list" where
  "audio_bundle self L example =
     and_then (getitem (PDict example) ''audio_path'') (\<lambda>path.
     and_then (loaded_streams self L example path) (\<lambda>d4.
     and_then (step_image self L d4) (\<lambda>d5.
     and_then (step_noise self L path d5) (\<lambda>d6.
     step_rir self L path d6))))"

text \<open>
  The example is an object: the caller and the transform hold the same reference. The
  heap maps a reference to the dict it denotes. Line 183 assigns into that dict and line
  185 returns the reference the call was given. An exception leaves the heap as it was,
  since the assignment of line 183 is the only write.
\<close>

type_synonym 'a heap = "nat \<Rightarrow> (string \<times> 'a py) list"

definition AudioReader_call ::
  "AudioReader \<Rightarrow> ('a::{zero,plus}) library \<Rightarrow> 'a heap \<Rightarrow> nat \<Rightarrow> err + 'a heap \<times> nat" where
  "AudioReader_call self L h example =
     and_then (audio_bundle self L (h example)) (\<lambda>data.
     Inr (h(example := setitem ''audio_data'' (PDict data) (h example)), example))"

section \<open>The database accessor: \<^verbatim>\<open>SmsWsj\<close>\<close>

text \<open>
  Lines 66--88. The environment is a map from variable names to values. The constructor
  of the base class \<^verbatim>\<open>lazy_dataset.database.JsonDatabase\<close> is outside the repository and
  is a parameter; \<open>name\<close> is \<^verbatim>\<open>cls.__name__\<close>.
\<close>

definition config_message :: "string \<Rightarrow> string" where
  "config_message name =
     ''To instantiate the '' @ name @ '' database,'' @ [CHR 0x0A]
     @ ''you have to provide the path to the json that'' @ [CHR 0x0A]
     @ ''describes the database.'' @ [CHR 0x0A]
     @ ''This can be done with'' @ [CHR 0x0A]
     @ [CHR 0x09] @ ''>>> `'' @ name @ ''(<path_to_json>)`'' @ [CHR 0x0A]
     @ ''or setting the environment variable'' @ [CHR 0x0A]
     @ [CHR 0x09] @ ''$ export SMS_WSJ_JSON=<path_to_json>'' @ [CHR 0x0A]
     @ ''and drop the argument is python'' @ [CHR 0x0A]
     @ [CHR 0x09] @ ''>>> `'' @ name @ ''()`''"

definition default_json_path :: "(string \<Rightarrow> string option) \<Rightarrow> string \<Rightarrow> err + string" where
  "default_json_path environ name =
     (case environ ''SMS_WSJ_JSON'' of
        Some p \<Rightarrow> Inr p
      | None \<Rightarrow> Inl (ValueError (config_message name)))"

definition SmsWsj_init ::
  "(string \<Rightarrow> string option) \<Rightarrow> string \<Rightarrow> (string \<Rightarrow> err + 'db) \<Rightarrow> string option \<Rightarrow> err + 'db" where
  "SmsWsj_init environ name super_init json_path =
     (case json_path of
        None \<Rightarrow> and_then (default_json_path environ name) super_init
      | Some p \<Rightarrow> super_init p)"

section \<open>Concrete inputs\<close>

text \<open>
  A small file system for the evaluations below, with integer samples. The files
  \<open>e0\<close>, \<open>e1\<close>, \<open>t0\<close> and \<open>t1\<close> hold three frames of one channel, \<open>s0\<close> and
  \<open>s1\<close> are mono files of five samples and \<open>s2\<close> is a mono file of three samples,
  which \<^verbatim>\<open>soundfile.read\<close> returns as one-dimensional arrays, \<open>obs\<close> holds two frames of two channels, and nothing else can
  be read. \<^verbatim>\<open>np.array\<close> refuses inhomogeneous lists, as numpy does from version 1.24 on,
  and \<^verbatim>\<open>+\<close> is refused between values that are not both numeric arrays.
\<close>

definition files_ex :: "int py \<Rightarrow> err + nat list \<times> int list" where
  "files_ex file =
     (if file = PStr ''e0'' then Inr ([3, 1], [1, 2, 3])
      else if file = PStr ''e1'' then Inr ([3, 1], [4, 5, 6])
      else if file = PStr ''t0'' then Inr ([3, 1], [10, 20, 30])
      else if file = PStr ''t1'' then Inr ([3, 1], [40, 50, 60])
      else if file = PStr ''s0'' then Inr ([5], [1, 2, 3, 4, 5])
      else if file = PStr ''s1'' then Inr ([5], [6, 7, 8, 9, 10])
      else if file = PStr ''s2'' then Inr ([3], [7, 8, 9])
      else if file = PStr ''obs'' then Inr ([2, 2], [1, 2, 3, 4])
      else Inl (RuntimeError ''Error opening file''))"

definition lib_ex :: "int library" where
  "lib_ex = \<lparr>soundfile_read = files_ex,
             array_other = (\<lambda>vs. Inl (ValueError ''inhomogeneous shape'')),
             add_other = (\<lambda>a b. Inl TypeError)\<rparr>"

text \<open>
  Three example records with two speakers and an observation of seven samples. In
  \<open>example_ex\<close> every stream is as the catalogue promises. In \<open>short_tail_ex\<close> the tail
  component was rendered for one speaker only. In \<open>broken_ex\<close> the noise image refers to
  a file that cannot be read.
\<close>

definition fields_ex :: "(string \<times> int py) list" where
  "fields_ex =
     [(''example_id'', PStr ''ex0''),
      (''num_samples'',
         PDict [(''observation'', PInt 7), (''speech_source'', PList [PInt 5, PInt 5])]),
      (''num_speakers'', PInt 2),
      (''offset'', PList [PInt 0, PInt 3])]"

definition path_ex :: "int py" where
  "path_ex = PDict
     [(''observation'', PStr ''obs''),
      (''speech_source'', PList [PStr ''s0'', PStr ''s1'']),
      (''speech_reverberation_early'', PList [PStr ''e0'', PStr ''e1'']),
      (''speech_reverberation_tail'', PList [PStr ''t0'', PStr ''t1'']),
      (''noise_image'', PStr ''obs'')]"

definition example_ex :: "(string \<times> int py) list" where
  "example_ex = (''audio_path'', path_ex) # fields_ex"

definition short_tail_path_ex :: "int py" where
  "short_tail_path_ex = PDict
     [(''observation'', PStr ''obs''),
      (''speech_source'', PList [PStr ''s0'', PStr ''s1'']),
      (''speech_reverberation_early'', PList [PStr ''e0'', PStr ''e1'']),
      (''speech_reverberation_tail'', PList [PStr ''t0'']),
      (''noise_image'', PStr ''obs'')]"

definition short_tail_ex :: "(string \<times> int py) list" where
  "short_tail_ex = (''audio_path'', short_tail_path_ex) # fields_ex"

definition broken_path_ex :: "int py" where
  "broken_path_ex = PDict
     [(''observation'', PStr ''obs''),
      (''speech_source'', PList [PStr ''s0'', PStr ''s1'']),
      (''speech_reverberation_early'', PList [PStr ''e0'', PStr ''e1'']),
      (''speech_reverberation_tail'', PList [PStr ''t0'', PStr ''t1'']),
      (''noise_image'', PStr ''lost'')]"

definition broken_ex :: "(string \<times> int py) list" where
  "broken_ex = (''audio_path'', broken_path_ex) # fields_ex"

text \<open>The heap holds \<open>example_ex\<close> at reference 0 and \<open>broken_ex\<close> at reference 1.\<close>

definition heap_ex :: "int heap" where
  "heap_ex r = (if r = 0 then example_ex else if r = 1 then broken_ex else [])"

text \<open>The bundle of \<open>example_ex\<close>, before and after the speech image is formed.\<close>

definition loaded_ex :: "(string \<times> int py) list" where
  "loaded_ex =
     [(''observation'', PArr [2, 2] [1, 3, 2, 4]),
      (''speech_source'', PArr [2, 7] [1, 2, 3, 4, 5, 0, 0, 0, 0, 0, 6, 7, 8, 9]),
      (''speech_reverberation_early'', PArr [2, 1, 3] [1, 2, 3, 4, 5, 6]),
      (''speech_reverberation_tail'', PArr [2, 1, 3] [10, 20, 30, 40, 50, 60])]"

definition data_ex :: "(string \<times> int py) list" where
  "data_ex =
     [(''observation'', PArr [2, 2] [1, 3, 2, 4]),
      (''speech_source'', PArr [2, 7] [1, 2, 3, 4, 5, 0, 0, 0, 0, 0, 6, 7, 8, 9]),
      (''speech_reverberation_early'', PArr [2, 1, 3] [1, 2, 3, 4, 5, 6]),
      (''speech_reverberation_tail'', PArr [2, 1, 3] [10, 20, 30, 40, 50, 60]),
      (''speech_image'', PArr [2, 1, 3] [11, 22, 33, 44, 55, 66]),
      (''noise_image'', PArr [2, 2] [1, 3, 2, 4])]"

text \<open>
  A bundle whose reverberation components cannot be broadcast, a sequence with one source
  of five samples, and a path tree that nests a sequence in a mapping.
\<close>

definition clash_ex :: "(string \<times> int py) list" where
  "clash_ex =
     [(''speech_reverberation_early'', PArr [2, 1, 3] [1, 2, 3, 4, 5, 6]),
      (''speech_reverberation_tail'', PArr [2, 1, 2] [10, 20, 30, 40])]"

definition sources_ex :: "int py" where
  "sources_ex = PList [PArr [5] [1, 2, 3, 4, 5]]"

definition tree_ex :: "(string \<times> int py) list" where
  "tree_ex = [(''left'', PStr ''e0''), (''right'', PList [PStr ''t0'', PStr ''t1''])]"

text \<open>
  A path tree of three levels, a mapping over a mono file and a sequence of sequences,
  and the value it is expected to load to.
\<close>

definition nest_ex :: "int py" where
  "nest_ex = PDict
     [(''left'', PStr ''s0''),
      (''right'', PList [PList [PStr ''t0'', PStr ''t1''], PList [PStr ''e0'', PStr ''e1'']])]"

definition nest_out_ex :: "int py" where
  "nest_out_ex = PDict
     [(''left'', PArr [5] [1, 2, 3, 4, 5]),
      (''right'', PArr [2, 2, 1, 3] [10, 20, 30, 40, 50, 60, 1, 2, 3, 4, 5, 6])]"

text \<open>An environment without \<open>SMS_WSJ_JSON\<close>, and a base-class constructor that succeeds.\<close>

definition environ_ex :: "string \<Rightarrow> string option" where
  "environ_ex v = (if v = ''HOME'' then Some ''/root'' else None)"

definition super_init_ex :: "string \<Rightarrow> err + string" where
  "super_init_ex p = Inr p"

section \<open>Notions used in the statements\<close>

text \<open>
  Two shapes are incompatible for broadcasting when, aligned at the last axis, some pair of
  sizes differs and neither size is 1.
\<close>

definition incompatible :: "nat list \<Rightarrow> nat list \<Rightarrow> bool" where
  "incompatible s1 s2 =
     list_ex (\<lambda>(a, b). a \<noteq> b \<and> a \<noteq> 1 \<and> b \<noteq> 1) (zip (rev s1) (rev s2))"

text \<open>
  Structural fidelity, in the words of the specification (sections 4.1 and 8):
  \<open>faithful L ref out\<close> holds when \<open>out\<close> has the nesting of \<open>ref\<close>, with each file
  reference replaced by the transposed array of its file, each non-empty sequence whose
  elements have one shape replaced by their stack under a new first axis, and each mapping
  replaced by a mapping with the same keys in the same order.
\<close>

inductive faithful :: "'a library \<Rightarrow> 'a py \<Rightarrow> 'a py \<Rightarrow> bool"
  and faithful_each :: "'a library \<Rightarrow> nat list \<Rightarrow> 'a py list \<Rightarrow> 'a list list \<Rightarrow> bool"
  and faithful_items :: "'a library \<Rightarrow> (string \<times> 'a py) list \<Rightarrow> (string \<times> 'a py) list \<Rightarrow> bool"
where
  leaf: "is_file f \<Longrightarrow> soundfile_read L f = Inr (sh, xs) \<Longrightarrow> faithful L f (transpose_T sh xs)"
| stacked: "fs \<noteq> [] \<Longrightarrow> faithful_each L sh fs ds \<Longrightarrow>
     faithful L (PList fs) (PArr (length fs # sh) (concat ds))"
| mapped: "faithful_items L kvs kvs' \<Longrightarrow> faithful L (PDict kvs) (PDict kvs')"
| each_nil: "faithful_each L sh [] []"
| each_cons: "faithful L f (PArr sh d) \<Longrightarrow> faithful_each L sh fs ds \<Longrightarrow>
     faithful_each L sh (f # fs) (d # ds)"
| items_nil: "faithful_items L [] []"
| items_cons: "faithful L v w \<Longrightarrow> faithful_items L kvs kvs' \<Longrightarrow>
     faithful_items L ((k, v) # kvs) ((k, w) # kvs')"


section \<open>Lemmas\<close>

subsection \<open>Sequencing, dicts and single steps\<close>

lemma and_then_Inr_iff: "and_then m f = Inr y \<longleftrightarrow> (\<exists>x. m = Inr x \<and> f x = Inr y)"
  by (cases m) (simp_all add: and_then_def)

lemma and_then_Inl_iff:
  "and_then m f = Inl e \<longleftrightarrow> m = Inl e \<or> (\<exists>x. m = Inr x \<and> f x = Inl e)"
  by (cases m) (simp_all add: and_then_def)

lemma and_then_Inl [simp]: "and_then (Inl e) f = Inl e"
  by (simp add: and_then_def)

lemma and_then_Inr [simp]: "and_then (Inr x) f = f x"
  by (simp add: and_then_def)

lemma map_of_setitem: "map_of (setitem k v d) = (map_of d)(k \<mapsto> v)"
  by (simp add: setitem_def update_conv')

lemma getitem_dict_Inr: "getitem (PDict d) k = Inr v \<longleftrightarrow> map_of d k = Some v"
  by (simp split: option.splits)

lemma load_stream_Inr:
  "load_stream L path k data = Inr d \<longleftrightarrow>
     (\<exists>file v. getitem path k = Inr file \<and> rec_audio_read L file = Inr v \<and> d = setitem k v data)"
  by (auto simp add: load_stream_def and_then_Inr_iff)

lemma step_early_has_key:
  assumes "speech_reverberation_early self" "step_early self L path data = Inr d"
  shows "\<exists>v. map_of d ''speech_reverberation_early'' = Some v"
  using assms by (auto simp add: step_early_def load_stream_Inr map_of_setitem)

lemma step_tail_has_key:
  assumes "speech_reverberation_tail self" "step_tail self L path data = Inr d"
  shows "\<exists>v. map_of d ''speech_reverberation_tail'' = Some v"
  using assms by (auto simp add: step_tail_def load_stream_Inr map_of_setitem)

lemma step_tail_keeps:
  assumes "step_tail self L path data = Inr d" "map_of data k = Some v"
  shows "\<exists>w. map_of d k = Some w"
  using assms by (auto simp add: step_tail_def load_stream_Inr map_of_setitem split: if_splits)


lemma load_stream_other:
  "load_stream L path k d = Inr d' \<Longrightarrow> k' \<noteq> k \<Longrightarrow> map_of d' k' = map_of d k'"
  by (auto simp add: load_stream_Inr map_of_setitem)

lemma step_observation_other:
  "step_observation self L path d = Inr d' \<Longrightarrow> k' \<noteq> ''observation'' \<Longrightarrow> map_of d' k' = map_of d k'"
  by (auto simp add: step_observation_def load_stream_other split: if_splits)

lemma step_early_other:
  "step_early self L path d = Inr d' \<Longrightarrow> k' \<noteq> ''speech_reverberation_early'' \<Longrightarrow>
     map_of d' k' = map_of d k'"
  by (auto simp add: step_early_def load_stream_other split: if_splits)

lemma step_tail_other:
  "step_tail self L path d = Inr d' \<Longrightarrow> k' \<noteq> ''speech_reverberation_tail'' \<Longrightarrow>
     map_of d' k' = map_of d k'"
  by (auto simp add: step_tail_def load_stream_other split: if_splits)

lemma step_noise_other:
  "step_noise self L path d = Inr d' \<Longrightarrow> k' \<noteq> ''noise_image'' \<Longrightarrow> map_of d' k' = map_of d k'"
  by (auto simp add: step_noise_def load_stream_other split: if_splits)

lemma step_rir_other:
  "step_rir self L path d = Inr d' \<Longrightarrow> k' \<noteq> ''rir'' \<Longrightarrow> map_of d' k' = map_of d k'"
  by (auto simp add: step_rir_def load_stream_other split: if_splits)

lemma step_image_other:
  "step_image self L d = Inr d' \<Longrightarrow> k' \<noteq> ''speech_image'' \<Longrightarrow> map_of d' k' = map_of d k'"
  by (auto simp add: step_image_def and_then_Inr_iff map_of_setitem split: if_splits)


lemma audio_bundle_Inr:
  assumes "audio_bundle self L example = Inr data"
  shows "\<exists>path d1 d2 d3 d4 d5 d6.
           getitem (PDict example) ''audio_path'' = Inr path \<and>
           step_observation self L path [] = Inr d1 \<and>
           step_speech_source self L example path d1 = Inr d2 \<and>
           step_early self L path d2 = Inr d3 \<and>
           step_tail self L path d3 = Inr d4 \<and>
           step_image self L d4 = Inr d5 \<and>
           step_noise self L path d5 = Inr d6 \<and>
           step_rir self L path d6 = Inr data"
  using assms
  by (auto simp add: audio_bundle_def loaded_streams_def and_then_Inr_iff
        simp del: getitem.simps)

lemma step_sync_Inr:
  assumes "step_sync example d = Inr d'"
  shows "\<exists>src off ns t out. map_of d ''speech_source'' = Some src \<and>
           getitem (PDict example) ''offset'' = Inr off \<and>
           getitem (PDict example) ''num_samples'' = Inr ns \<and>
           getitem ns ''observation'' = Inr t \<and>
           synchronize_speech_source src off t = Inr out \<and>
           d' = setitem ''speech_source'' out d"
proof -
  from assms obtain src off ns t out where
      "getitem (PDict d) ''speech_source'' = Inr src"
      "getitem (PDict example) ''offset'' = Inr off"
      "getitem (PDict example) ''num_samples'' = Inr ns"
      "getitem ns ''observation'' = Inr t"
      "synchronize_speech_source src off t = Inr out"
      "d' = setitem ''speech_source'' out d"
    unfolding step_sync_def and_then_Inr_iff by blast
  then show ?thesis by (auto simp add: getitem_dict_Inr simp del: getitem.simps)
qed

subsection \<open>Indexing, transposition and broadcasting\<close>



lemma length_unravel [simp]: "length (unravel sh i) = length sh"
  by (induction sh arbitrary: i) simp_all






lemma broadcast_rev_None:
  "broadcast_rev xs ys = None \<longleftrightarrow> list_ex (\<lambda>(a, b). a \<noteq> b \<and> a \<noteq> 1 \<and> b \<noteq> 1) (zip xs ys)"
  by (induction xs ys rule: broadcast_rev.induct) auto

lemma broadcast_rev_Some_length:
  "broadcast_rev xs ys = Some out \<Longrightarrow> length out = max (length xs) (length ys)"
  by (induction xs ys arbitrary: out rule: broadcast_rev.induct) (auto split: if_splits)

lemma broadcast_shapes_None: "broadcast_shapes s1 s2 = None \<longleftrightarrow> incompatible s1 s2"
  by (simp add: broadcast_shapes_def incompatible_def broadcast_rev_None)

lemma transpose_2d_index: "c < C \<Longrightarrow> s < S \<Longrightarrow> c * S + s < C * (S::nat)"
proof -
  assume c: "c < C" and s: "s < S"
  have "c * S + s < c * S + S" using s by simp
  also have "\<dots> = Suc c * S" by simp
  also have "\<dots> \<le> C * S" using c by (intro mult_le_mono1) simp
  finally show ?thesis .
qed

lemma transpose_T_2d:
  "\<exists>ys. transpose_T [S, C] xs = PArr [C, S] ys \<and> length ys = C * S \<and>
        (\<forall>c<C. \<forall>s<S. ys ! (c * S + s) = xs ! (s * C + c))"
proof -
  let ?ys = "map (\<lambda>i. xs ! ravel [S, C] (rev (unravel [C, S] i))) [0..<S * C]"
  have "?ys ! (c * S + s) = xs ! (s * C + c)" if "c < C" "s < S" for c s
  proof -
    have "c * S + s < S * C" using transpose_2d_index [OF that] by (simp add: mult.commute)
    then show ?thesis using that by simp
  qed
  then show ?thesis by (simp add: transpose_T_def mult.commute)
qed

lemma transpose_T_1d: "length xs = n \<Longrightarrow> transpose_T [n] xs = PArr [n] xs"
  using map_nth [of xs] by (auto simp add: transpose_T_def)


subsection \<open>The synchroniser\<close>

lemma sync_row_empty:
  "sync_hi (length x) T off \<le> sync_lo off \<Longrightarrow> sync_row x off T = replicate (nat T) 0"
  by (simp add: sync_row_def)

lemma sync_row_parts:
  assumes "sync_lo off < sync_hi (length x) T off"
  shows "sync_row x off T =
           replicate (nat (off + sync_lo off)) 0
           @ take (nat (sync_hi (length x) T off - sync_lo off)) (drop (nat (sync_lo off)) x)
           @ replicate (nat (T - (off + sync_hi (length x) T off))) 0"
    and "0 \<le> sync_lo off" and "0 \<le> off + sync_lo off"
    and "sync_hi (length x) T off \<le> int (length x)"
    and "off + sync_hi (length x) T off \<le> T"
    and "length (take (nat (sync_hi (length x) T off - sync_lo off)) (drop (nat (sync_lo off)) x))
           = nat (sync_hi (length x) T off - sync_lo off)"
    and "nat (off + sync_lo off) + nat (sync_hi (length x) T off - sync_lo off)
           + nat (T - (off + sync_hi (length x) T off)) = nat T"
proof -
  show "sync_row x off T =
           replicate (nat (off + sync_lo off)) 0
           @ take (nat (sync_hi (length x) T off - sync_lo off)) (drop (nat (sync_lo off)) x)
           @ replicate (nat (T - (off + sync_hi (length x) T off))) 0"
    using assms by (simp add: sync_row_def Let_def)
  show lo0: "0 \<le> sync_lo off" by (simp add: sync_lo_def)
  show lo1: "0 \<le> off + sync_lo off" by (simp add: sync_lo_def)
  show hi0: "sync_hi (length x) T off \<le> int (length x)" by (simp add: sync_hi_def)
  show hi1: "off + sync_hi (length x) T off \<le> T" by (simp add: sync_hi_def)
  show "length (take (nat (sync_hi (length x) T off - sync_lo off)) (drop (nat (sync_lo off)) x))
           = nat (sync_hi (length x) T off - sync_lo off)"
    using lo0 hi0 assms by simp
  show "nat (off + sync_lo off) + nat (sync_hi (length x) T off - sync_lo off)
           + nat (T - (off + sync_hi (length x) T off)) = nat T"
    using lo1 hi1 assms by linarith
qed

lemma length_sync_row: "length (sync_row x off T) = nat T"
proof (cases "sync_hi (length x) T off \<le> sync_lo off")
  case True
  then show ?thesis by (simp add: sync_row_empty)
next
  case False
  then have lt: "sync_lo off < sync_hi (length x) T off" by simp
  have "length (sync_row x off T) =
          nat (off + sync_lo off) + nat (sync_hi (length x) T off - sync_lo off)
           + nat (T - (off + sync_hi (length x) T off))"
    using sync_row_parts(6) [OF lt]
    by (simp only: sync_row_parts(1) [OF lt] length_append length_replicate)
  then show ?thesis using sync_row_parts(7) [OF lt] by simp
qed

lemma sync_row_segment:
  assumes "sync_lo off < sync_hi (length x) T off"
  shows "take (nat (sync_hi (length x) T off - sync_lo off))
           (drop (nat (off + sync_lo off)) (sync_row x off T))
         = take (nat (sync_hi (length x) T off - sync_lo off)) (drop (nat (sync_lo off)) x)"
  using sync_row_parts(6) [OF assms]
  by (simp only: sync_row_parts(1) [OF assms]) simp

lemma sync_row_nth:
  assumes "j < nat T"
  shows "sync_row x off T ! j =
           (if off + sync_lo off \<le> int j \<and> int j < off + sync_hi (length x) T off
            then x ! nat (int j - off) else 0)"
proof (cases "sync_hi (length x) T off \<le> sync_lo off")
  case True
  then have neg: "\<not> (off + sync_lo off \<le> int j \<and> int j < off + sync_hi (length x) T off)"
    by linarith
  have "sync_row x off T ! j = 0" using True assms by (simp add: sync_row_empty)
  then show ?thesis by (simp only: neg if_False)
next
  case False
  then have lt: "sync_lo off < sync_hi (length x) T off" by simp
  define lo where "lo = sync_lo off"
  define hi where "hi = sync_hi (length x) T off"
  define a where "a = nat (off + lo)"
  define m where "m = nat (hi - lo)"
  define b where "b = nat (T - (off + hi))"
  define mid where "mid = take m (drop (nat lo) x)"
  note p = sync_row_parts [OF lt, folded lo_def hi_def]
  have row: "sync_row x off T = replicate a 0 @ mid @ replicate b 0"
    using p(1) by (simp add: a_def m_def b_def mid_def)
  have len: "length mid = m" using p(6) by (simp add: mid_def m_def)
  have tot: "a + m + b = nat T" using p(7) by (simp add: a_def m_def b_def)
  have ia: "int a = off + lo" using p(3) by (simp add: a_def)
  have im: "int m = hi - lo" using lt by (simp add: m_def lo_def hi_def)
  consider "j < a" | "a \<le> j" "j < a + m" | "a + m \<le> j" by linarith
  then show ?thesis
  proof cases
    case 1
    then have "sync_row x off T ! j = 0" by (simp add: row nth_append)
    moreover have "\<not> off + lo \<le> int j" using 1 ia by linarith
    ultimately show ?thesis by (simp add: lo_def)
  next
    case 2
    then have ja: "j - a < m" by linarith
    have "sync_row x off T ! j = mid ! (j - a)"
      using 2 ja by (simp add: row nth_append len)
    also have "\<dots> = x ! (nat lo + (j - a))"
    proof -
      have "nat lo + (j - a) < length x" using ja p(4) p(2) im by linarith
      then show ?thesis using ja by (simp add: mid_def)
    qed
    also have "nat lo + (j - a) = nat (int j - off)"
      using 2 ia p(2) by linarith
    finally have "sync_row x off T ! j = x ! nat (int j - off)" .
    moreover have "off + lo \<le> int j \<and> int j < off + hi" using 2 ia im by linarith
    ultimately show ?thesis by (simp add: lo_def hi_def)
  next
    case 3
    then have jb: "j - a - m < b" and na: "\<not> j < a" and nm: "\<not> j - a < m"
      using assms tot by linarith+
    have "sync_row x off T ! j = 0"
      using jb na nm by (simp add: row nth_append len)
    moreover have "\<not> int j < off + hi" using 3 ia im by linarith
    ultimately show ?thesis by (simp add: hi_def)
  qed
qed

lemma sync_row_negative_offset: "sync_row [x0, x1, x2, x3, x4] (- 2) 3 = [x2, x3, x4]"
  by (simp add: sync_row_def sync_lo_def sync_hi_def)

lemma concat_chunk:
  "\<forall>x\<in>set xss. length x = n \<Longrightarrow> s < length xss \<Longrightarrow> take n (drop (s * n) (concat xss)) = xss ! s"
proof (induction xss arbitrary: s)
  case Nil
  then show ?case by simp
next
  case (Cons x xss)
  show ?case
  proof (cases s)
    case 0
    then show ?thesis using Cons.prems by simp
  next
    case (Suc s')
    then have "take n (drop (s * n) (concat (x # xss))) = take n (drop (s' * n) (concat xss))"
      using Cons.prems by simp
    then show ?thesis using Cons Suc by simp
  qed
qed

lemma length_concat_uniform:
  "\<forall>x\<in>set xss. length x = n \<Longrightarrow> length (concat xss) = length xss * n"
  by (induction xss) simp_all

lemma synchronize_Inr:
  assumes "synchronize_speech_source src off t = Inr out"
  shows "\<exists>rows offs T. as_rows src = Some rows \<and> as_ints off = Some offs \<and> t = PInt T \<and>
           length rows = length offs \<and>
           out = PArr [length offs, nat T] (concat (map2 (\<lambda>x off. sync_row x off T) rows offs))"
proof -
  from assms obtain rows offs T where
    "as_rows src = Some rows" "as_ints off = Some offs" "as_int t = Some T"
    "length rows = length offs"
    "out = PArr [length rows, nat T] (concat (map2 (\<lambda>x off. sync_row x off T) rows offs))"
    by (auto simp add: synchronize_speech_source_def split: option.splits if_splits)
  moreover from \<open>as_int t = Some T\<close> have "t = PInt T" by (cases t) simp_all
  ultimately show ?thesis by simp
qed

lemma sync_rows_uniform:
  "\<forall>r\<in>set (map2 (\<lambda>x off. sync_row x off T) rows offs). length r = nat T"
  by (auto simp add: length_sync_row set_zip)

lemma as_rows_2d:
  "as_rows (PArr [n, m] xs) = Some (map (\<lambda>i. take m (drop (i * m) xs)) [0..<n])"
proof -
  have "those (map as_row (map (\<lambda>i. PArr [m] (take m (drop (i * m) xs))) js))
          = Some (map (\<lambda>i. take m (drop (i * m) xs)) js)" for js
    by (induction js) simp_all
  then show ?thesis by (simp add: as_rows_def)
qed

subsection \<open>The loader\<close>

lemma rec_audio_read_file: "is_file f \<Longrightarrow> rec_audio_read L f = read_file L f"
  by (cases f) simp_all

lemma leaves_file: "is_file f \<Longrightarrow> leaves f = [f]"
  by (cases f) simp_all

lemma read_file_Inr:
  "read_file L f = Inr v \<longleftrightarrow> (\<exists>sh xs. soundfile_read L f = Inr (sh, xs) \<and> v = transpose_T sh xs)"
  by (auto simp add: read_file_def and_then_Inr_iff)

lemma read_each_Inr:
  "read_each L fs = Inr vs \<longleftrightarrow> list_all2 (\<lambda>f v. rec_audio_read L f = Inr v) fs vs"
proof (induction fs arbitrary: vs)
  case Nil
  then show ?case by auto
next
  case (Cons f fs)
  show ?case
    by (cases vs) (auto simp add: and_then_Inr_iff Cons.IH)
qed

lemma read_items_Inr:
  "read_items L kvs = Inr r \<longleftrightarrow>
     map fst r = map fst kvs \<and>
     list_all2 (\<lambda>f v. rec_audio_read L f = Inr v) (map snd kvs) (map snd r)"
proof (induction kvs arbitrary: r)
  case Nil
  then show ?case by auto
next
  case (Cons kv kvs)
  obtain k f where kv: "kv = (k, f)" by (cases kv)
  show ?case
    by (cases r) (auto simp add: kv and_then_Inr_iff Cons.IH)
qed

lemma np_array_stack:
  assumes "vs \<noteq> []" "list_all2 (\<lambda>v d. v = PArr sh d) vs ds"
  shows "np_array L vs = Inr (PArr (length vs # sh) (concat ds))"
proof -
  from assms(2) have vs: "vs = map (PArr sh) ds"
    by (induction vs ds rule: list_all2_induct) simp_all
  have data: "concat (map arr_data (map (PArr sh) ds)) = concat ds"
    by (induction ds) simp_all
  have all: "list_all (\<lambda>w. arr_shape w = Some sh) (map (PArr sh) ds)"
    by (induction ds) simp_all
  from assms(1) vs obtain d ds' where ds: "ds = d # ds'" by (cases ds) auto
  show ?thesis
    using all data unfolding vs ds by (simp add: np_array_def)
qed


lemma faithful_is_loaded:
  "faithful L ref out \<Longrightarrow> rec_audio_read L ref = Inr out"
  "faithful_each L sh fs ds \<Longrightarrow>
     read_each L fs = Inr (map (PArr sh) ds) \<and> length ds = length fs"
  "faithful_items L kvs kvs' \<Longrightarrow> read_items L kvs = Inr kvs'"
proof (induction rule: faithful_faithful_each_faithful_items.inducts)
  case (leaf f L sh xs)
  then show ?case by (simp add: rec_audio_read_file read_file_def)
next
  case (stacked fs L sh ds)
  then have each: "read_each L fs = Inr (map (PArr sh) ds)" and len: "length ds = length fs"
    by simp_all
  have "list_all2 (\<lambda>v d. v = PArr sh d) (map (PArr sh) ds) ds"
    by (simp add: list_all2_map1 list_all2_same)
  moreover from stacked(1) len have "map (PArr sh) ds \<noteq> []" by auto
  ultimately have "np_array L (map (PArr sh) ds)
                     = Inr (PArr (length (map (PArr sh) ds) # sh) (concat ds))"
    by (rule np_array_stack [rotated])
  with each len show ?case by simp
next
  case (mapped L kvs kvs')
  then show ?case by simp
next
  case (each_nil L sh)
  then show ?case by simp
next
  case (each_cons L f sh d fs ds)
  then show ?case by simp
next
  case (items_nil L)
  then show ?case by simp
next
  case (items_cons L v w kvs kvs' k)
  then show ?case by simp
qed





subsection \<open>The concrete inputs, evaluated\<close>

lemma default_is_constructed:
  "AudioReader_default = AudioReader_init True True True True True True True False"
  by (simp add: AudioReader_default_def)

lemma default_flags:
  "speech_image AudioReader_default" "speech_source AudioReader_default"
  "sync_speech_source AudioReader_default"
  by (simp_all add: AudioReader_default_def AudioReader_init_def post_init_def)

lemma loaded_streams_example:
  "loaded_streams AudioReader_default lib_ex example_ex path_ex = Inr loaded_ex"
  by code_simp

lemma audio_bundle_example: "audio_bundle AudioReader_default lib_ex example_ex = Inr data_ex"
  by code_simp

lemma audio_bundle_broken:
  "audio_bundle AudioReader_default lib_ex broken_ex = Inl (RuntimeError ''Error opening file'')"
  by code_simp

lemma call_example:
  "AudioReader_call AudioReader_default lib_ex heap_ex 0
     = Inr (heap_ex(0 := setitem ''audio_data'' (PDict data_ex) example_ex), 0)"
  by (simp add: AudioReader_call_def heap_ex_def audio_bundle_example)

lemma transposed_files_ex:
  "transpose_T [5] [1, 2, 3, 4, 5 :: int] = PArr [5] [1, 2, 3, 4, 5]"
  "transpose_T [3, 1] [1, 2, 3 :: int] = PArr [1, 3] [1, 2, 3]"
  "transpose_T [3, 1] [4, 5, 6 :: int] = PArr [1, 3] [4, 5, 6]"
  "transpose_T [3, 1] [10, 20, 30 :: int] = PArr [1, 3] [10, 20, 30]"
  "transpose_T [3, 1] [40, 50, 60 :: int] = PArr [1, 3] [40, 50, 60]"
  by code_simp+

lemma faithful_nest_ex: "faithful lib_ex nest_ex nest_out_ex"
proof -
  have s0: "faithful lib_ex (PStr ''s0'') (PArr [5] [1, 2, 3, 4, 5])"
    unfolding transposed_files_ex(1) [symmetric]
    by (rule leaf) (simp_all add: lib_ex_def files_ex_def)
  have e0: "faithful lib_ex (PStr ''e0'') (PArr [1, 3] [1, 2, 3])"
    unfolding transposed_files_ex(2) [symmetric]
    by (rule leaf) (simp_all add: lib_ex_def files_ex_def)
  have e1: "faithful lib_ex (PStr ''e1'') (PArr [1, 3] [4, 5, 6])"
    unfolding transposed_files_ex(3) [symmetric]
    by (rule leaf) (simp_all add: lib_ex_def files_ex_def)
  have t0: "faithful lib_ex (PStr ''t0'') (PArr [1, 3] [10, 20, 30])"
    unfolding transposed_files_ex(4) [symmetric]
    by (rule leaf) (simp_all add: lib_ex_def files_ex_def)
  have t1: "faithful lib_ex (PStr ''t1'') (PArr [1, 3] [40, 50, 60])"
    unfolding transposed_files_ex(5) [symmetric]
    by (rule leaf) (simp_all add: lib_ex_def files_ex_def)
  have ts: "faithful lib_ex (PList [PStr ''t0'', PStr ''t1''])
              (PArr [2, 1, 3] [10, 20, 30, 40, 50, 60])"
    using stacked [OF _ each_cons [OF t0 each_cons [OF t1 each_nil]]] by (simp add: numeral_2_eq_2)
  have es: "faithful lib_ex (PList [PStr ''e0'', PStr ''e1''])
              (PArr [2, 1, 3] [1, 2, 3, 4, 5, 6])"
    using stacked [OF _ each_cons [OF e0 each_cons [OF e1 each_nil]]] by (simp add: numeral_2_eq_2)
  have both: "faithful lib_ex
                (PList [PList [PStr ''t0'', PStr ''t1''], PList [PStr ''e0'', PStr ''e1'']])
                (PArr [2, 2, 1, 3] [10, 20, 30, 40, 50, 60, 1, 2, 3, 4, 5, 6])"
    using stacked [OF _ each_cons [OF ts each_cons [OF es each_nil]]] by (simp add: numeral_2_eq_2)
  show ?thesis
    unfolding nest_ex_def nest_out_ex_def
    by (rule mapped) (intro items_cons items_nil s0 both)
qed

section \<open>Theorems\<close>

text \<open>
  Claim C3. Whenever the speech image is requested, construction leaves both
  reverberation-component flags enabled, whatever was passed for them; the other flags,
  the speech-image flag included, are stored as passed.
\<close>

theorem post_init_forces_reverberation:
  "img \<Longrightarrow>
     speech_reverberation_early (AudioReader_init obs src sync early tail img noise r) \<and>
     speech_reverberation_tail (AudioReader_init obs src sync early tail img noise r) \<and>
     speech_image (AudioReader_init obs src sync early tail img noise r)"
  by (simp add: AudioReader_init_def post_init_def)

theorem post_init_forces_reverberation_witness:
  "speech_reverberation_early (AudioReader_init True True True False False True True False) \<and>
   speech_reverberation_tail (AudioReader_init True True True False False True True False) \<and>
   speech_image (AudioReader_init True True True False False True True False)"
  using post_init_forces_reverberation [of True True True True False False True False]
  by simp

text \<open>
  Claim C8. Constructing the accessor without a path, in an environment that does not
  define \<open>SMS_WSJ_JSON\<close>, fails with the \<open>ValueError\<close> that carries the configuration
  message. The failure is the result of the constructor itself: it is the same whatever
  the constructor of the base class would do, which is never reached.
\<close>

theorem missing_catalog_fails_at_construction:
  assumes "environ ''SMS_WSJ_JSON'' = None"
  shows "SmsWsj_init environ name super_init None = Inl (ValueError (config_message name))"
  using assms by (simp add: SmsWsj_init_def default_json_path_def)

theorem missing_catalog_fails_at_construction_witness:
  "environ_ex ''SMS_WSJ_JSON'' = None \<and>
   SmsWsj_init environ_ex ''SmsWsj'' super_init_ex None
     = Inl (ValueError (config_message ''SmsWsj''))"
  using missing_catalog_fails_at_construction [of environ_ex "''SmsWsj''" super_init_ex]
  by (simp add: environ_ex_def)

text \<open>
  Claim C10. For a reader as its constructor leaves it, with the speech image requested:
  whenever the statements up to line 169 have run without an exception, the dict
  \<open>data\<close> holds both reverberation components, so both lookups of lines 173--174
  succeed and the step that forms the image is the sum of the two entries found.
\<close>

theorem image_operands_loaded:
  assumes "self = AudioReader_init obs src sync early tail img noise r"
    and "speech_image self"
    and "loaded_streams self L example path = Inr data"
  shows "\<exists>e t. getitem (PDict data) ''speech_reverberation_early'' = Inr e \<and>
               getitem (PDict data) ''speech_reverberation_tail'' = Inr t \<and>
               step_image self L data =
                 and_then (np_add L e t) (\<lambda>v. Inr (setitem ''speech_image'' v data))"
proof -
  from assms(1,2) have flags: "speech_reverberation_early self" "speech_reverberation_tail self"
    by (simp_all add: AudioReader_init_def post_init_def split: if_splits)
  from assms(3) obtain d2 d3 where
      d3: "step_early self L path d2 = Inr d3" and d4: "step_tail self L path d3 = Inr data"
    by (auto simp add: loaded_streams_def and_then_Inr_iff)
  from step_early_has_key [OF flags(1) d3] obtain e0
    where "map_of d3 ''speech_reverberation_early'' = Some e0" ..
  from step_tail_keeps [OF d4 this] obtain e
    where e: "map_of data ''speech_reverberation_early'' = Some e" ..
  from step_tail_has_key [OF flags(2) d4] obtain t
    where t: "map_of data ''speech_reverberation_tail'' = Some t" ..
  from e t assms(2) show ?thesis
    by (simp add: step_image_def)
qed

theorem image_operands_loaded_witness:
  "speech_image AudioReader_default \<and>
   loaded_streams AudioReader_default lib_ex example_ex path_ex = Inr loaded_ex \<and>
   (\<exists>e t. getitem (PDict loaded_ex) ''speech_reverberation_early'' = Inr e \<and>
          getitem (PDict loaded_ex) ''speech_reverberation_tail'' = Inr t \<and>
          step_image AudioReader_default lib_ex loaded_ex =
            and_then (np_add lib_ex e t) (\<lambda>v. Inr (setitem ''speech_image'' v loaded_ex)))"
  using image_operands_loaded [OF default_is_constructed default_flags(1) loaded_streams_example]
    default_flags(1) loaded_streams_example
  by (intro conjI)

text \<open>
  Claim C1, as amended. A call that returns hands back the reference it was given; the
  record at that reference now holds the bundle under \<open>audio_data\<close>, every other field
  of the record is as before, and no other record of the heap is touched. The record is
  updated in place: it is not a new value.
\<close>

theorem call_updates_example_in_place:
  assumes "AudioReader_call self L h example = Inr (h', r)"
  shows "r = example \<and>
         (\<exists>data. audio_bundle self L (h example) = Inr data \<and>
                  map_of (h' example) ''audio_data'' = Some (PDict data)) \<and>
         (\<forall>k. k \<noteq> ''audio_data'' \<longrightarrow> map_of (h' example) k = map_of (h example) k) \<and>
         (\<forall>other. other \<noteq> example \<longrightarrow> h' other = h other)"
  using assms
  by (auto simp add: AudioReader_call_def and_then_Inr_iff map_of_setitem)

theorem call_updates_example_in_place_witness:
  "AudioReader_call AudioReader_default lib_ex heap_ex 0
     = Inr (heap_ex(0 := setitem ''audio_data'' (PDict data_ex) example_ex), 0) \<and>
   map_of ((heap_ex(0 := setitem ''audio_data'' (PDict data_ex) example_ex)) 0) ''audio_data''
     = Some (PDict data_ex) \<and>
   map_of ((heap_ex(0 := setitem ''audio_data'' (PDict data_ex) example_ex)) 0) ''offset''
     = map_of (heap_ex 0) ''offset'' \<and>
   (heap_ex(0 := setitem ''audio_data'' (PDict data_ex) example_ex)) 1 = heap_ex 1"
  using call_updates_example_in_place [OF call_example] call_example
  by (simp add: audio_bundle_example heap_ex_def)

text \<open>
  The record is not a new value: after the call the reference that the caller passed
  denotes a record with the field \<open>audio_data\<close>, which it did not have before.
\<close>

theorem call_mutates_example_counterexample:
  "\<not> isl (AudioReader_call AudioReader_default lib_ex heap_ex 0) \<and>
   snd (projr (AudioReader_call AudioReader_default lib_ex heap_ex 0)) = 0 \<and>
   map_of (heap_ex 0) ''audio_data'' = None \<and>
   map_of (fst (projr (AudioReader_call AudioReader_default lib_ex heap_ex 0)) 0) ''audio_data''
     = Some (PDict data_ex)"
  by (simp add: call_example map_of_setitem) (simp add: heap_ex_def example_ex_def fields_ex_def)

text \<open>
  Claim C2, as amended. When both loaded components are numeric arrays, forming the
  speech image fails with numpy's \<open>ValueError\<close> exactly when the two shapes are
  incompatible for broadcasting; shapes that differ but are compatible are broadcast
  to a common shape, whose rank is the larger of the two ranks, and no error is raised.
\<close>

theorem compose_incompatible_shapes:
  assumes "speech_image self"
    and "map_of data ''speech_reverberation_early'' = Some (PArr s1 xs)"
    and "map_of data ''speech_reverberation_tail'' = Some (PArr s2 ys)"
  shows "(incompatible s1 s2 \<longrightarrow>
            step_image self L data
              = Inl (ValueError ''operands could not be broadcast together'')) \<and>
         (\<not> incompatible s1 s2 \<longrightarrow>
            (\<exists>out zs. broadcast_shapes s1 s2 = Some out \<and>
               length out = max (length s1) (length s2) \<and>
               length zs = prod_list out \<and>
               step_image self L data = Inr (setitem ''speech_image'' (PArr out zs) data)))"
proof (cases "broadcast_shapes s1 s2")
  case None
  then have "incompatible s1 s2" by (simp add: broadcast_shapes_None)
  moreover have "step_image self L data
                   = Inl (ValueError ''operands could not be broadcast together'')"
    using assms None by (simp add: step_image_def np_add_def)
  ultimately show ?thesis by simp
next
  case (Some out)
  then have ok: "\<not> incompatible s1 s2"
    using broadcast_shapes_None [of s1 s2] by simp
  from Some obtain r where r: "broadcast_rev (rev s1) (rev s2) = Some r" and out: "out = rev r"
    by (auto simp add: broadcast_shapes_def)
  have len: "length out = max (length s1) (length s2)"
    using broadcast_rev_Some_length [OF r] by (simp add: out)
  define zs where "zs = map (\<lambda>i. xs ! bc_index s1 (unravel out i) + ys ! bc_index s2 (unravel out i))
                         [0..<prod_list out]"
  have "step_image self L data = Inr (setitem ''speech_image'' (PArr out zs) data)"
    using assms Some by (simp add: step_image_def np_add_def zs_def)
  moreover have "length zs = prod_list out" by (simp add: zs_def)
  ultimately show ?thesis using ok Some len by blast
qed

theorem compose_incompatible_shapes_witness:
  "speech_image AudioReader_default \<and>
   map_of clash_ex ''speech_reverberation_early'' = Some (PArr [2, 1, 3] [1, 2, 3, 4, 5, 6]) \<and>
   map_of clash_ex ''speech_reverberation_tail'' = Some (PArr [2, 1, 2] [10, 20, 30, 40]) \<and>
   incompatible [2, 1, 3] [2, 1, 2] \<and>
   step_image AudioReader_default lib_ex clash_ex
     = Inl (ValueError ''operands could not be broadcast together'')"
proof -
  have e: "map_of clash_ex ''speech_reverberation_early'' = Some (PArr [2, 1, 3] [1, 2, 3, 4, 5, 6])"
    by (simp add: clash_ex_def)
  have t: "map_of clash_ex ''speech_reverberation_tail'' = Some (PArr [2, 1, 2] [10, 20, 30, 40])"
    by (simp add: clash_ex_def)
  have i: "incompatible [2, 1, 3] [2, 1, 2]"
    by (simp add: incompatible_def)
  from compose_incompatible_shapes [OF default_flags(1) e t, of lib_ex] i
  have "step_image AudioReader_default lib_ex clash_ex
          = Inl (ValueError ''operands could not be broadcast together'')"
    by (simp only: simp_thms)
  with default_flags(1) e t i show ?thesis by (intro conjI)
qed

text \<open>
  Shapes that differ need not fail: for \<open>short_tail_ex\<close> the early component has shape
  \<open>(2, 1, 3)\<close> and the tail component \<open>(1, 1, 3)\<close>, and the call returns a bundle
  whose speech image adds the one tail to both speakers.
\<close>

theorem shapes_differ_yet_broadcast_counterexample:
  "audio_bundle AudioReader_default lib_ex short_tail_ex =
     Inr [(''observation'', PArr [2, 2] [1, 3, 2, 4]),
          (''speech_source'', PArr [2, 7] [1, 2, 3, 4, 5, 0, 0, 0, 0, 0, 6, 7, 8, 9]),
          (''speech_reverberation_early'', PArr [2, 1, 3] [1, 2, 3, 4, 5, 6]),
          (''speech_reverberation_tail'', PArr [1, 1, 3] [10, 20, 30]),
          (''speech_image'', PArr [2, 1, 3] [11, 22, 33, 14, 25, 36]),
          (''noise_image'', PArr [2, 2] [1, 3, 2, 4])]"
  by code_simp



text \<open>
  Claim C5. When \<open>speech_source\<close> and \<open>sync_speech_source\<close> are both set and the call
  builds its bundle, the entry \<open>speech_source\<close> of the bundle is the result of the
  synchroniser on the loaded sources, the example's \<open>offset\<close> and its
  \<open>num_samples.observation\<close>; it is an array with one row per offset and
  \<open>num_samples.observation\<close> columns (\<open>nat T\<close> is \<open>T\<close> for a sample count, which is
  not negative).
\<close>

theorem speech_source_is_synchronized:
  assumes "speech_source self" and "sync_speech_source self"
    and "audio_bundle self L example = Inr data"
  shows "\<exists>path file src off ns offs T xs.
           getitem (PDict example) ''audio_path'' = Inr path \<and>
           getitem path ''speech_source'' = Inr file \<and>
           rec_audio_read L file = Inr src \<and>
           getitem (PDict example) ''offset'' = Inr off \<and>
           getitem (PDict example) ''num_samples'' = Inr ns \<and>
           getitem ns ''observation'' = Inr (PInt T) \<and>
           as_ints off = Some offs \<and>
           synchronize_speech_source src off (PInt T) = Inr (PArr [length offs, nat T] xs) \<and>
           map_of data ''speech_source'' = Some (PArr [length offs, nat T] xs) \<and>
           length xs = length offs * nat T"
proof -
  from audio_bundle_Inr [OF assms(3)] obtain path d1 d2 d3 d4 d5 d6 where
      path: "getitem (PDict example) ''audio_path'' = Inr path"
    and d2: "step_speech_source self L example path d1 = Inr d2"
    and d3: "step_early self L path d2 = Inr d3"
    and d4: "step_tail self L path d3 = Inr d4"
    and d5: "step_image self L d4 = Inr d5"
    and d6: "step_noise self L path d5 = Inr d6"
    and d7: "step_rir self L path d6 = Inr data"
    by blast
  from d2 assms(1,2) obtain da where
      da: "load_stream L path ''speech_source'' d1 = Inr da"
    and sync: "step_sync example da = Inr d2"
    by (auto simp add: step_speech_source_def and_then_Inr_iff)
  from da obtain ref src where
      fl: "getitem path ''speech_source'' = Inr ref"
    and src: "rec_audio_read L ref = Inr src"
    and da_eq: "da = setitem ''speech_source'' src d1"
    unfolding load_stream_Inr by blast
  from step_sync_Inr [OF sync] obtain src' off ns t out where
      src': "map_of da ''speech_source'' = Some src'"
    and off: "getitem (PDict example) ''offset'' = Inr off"
    and ns: "getitem (PDict example) ''num_samples'' = Inr ns"
    and t: "getitem ns ''observation'' = Inr t"
    and out: "synchronize_speech_source src' off t = Inr out"
    and d2_eq: "d2 = setitem ''speech_source'' out da"
    by blast
  from src' have [simp]: "src' = src" by (simp add: da_eq map_of_setitem)
  from synchronize_Inr [OF out] obtain rows offs T where
      offs: "as_ints off = Some offs" and T: "t = PInt T"
    and len: "length rows = length offs"
    and out_eq: "out = PArr [length offs, nat T]
                   (concat (map2 (\<lambda>x off. sync_row x off T) rows offs))"
    by blast
  define xs where "xs = concat (map2 (\<lambda>x off. sync_row x off T) rows offs)"
  have lxs: "length xs = length offs * nat T"
    unfolding xs_def
    using length_concat_uniform [OF sync_rows_uniform, of T rows offs] len by simp
  have "map_of data ''speech_source'' = map_of d2 ''speech_source''"
    using step_rir_other [OF d7] step_noise_other [OF d6] step_image_other [OF d5]
      step_tail_other [OF d4] step_early_other [OF d3] by simp
  then have "map_of data ''speech_source'' = Some (PArr [length offs, nat T] xs)"
    by (simp add: d2_eq map_of_setitem out_eq xs_def)
  with path fl src off ns t offs out lxs show ?thesis
    unfolding T out_eq xs_def [symmetric] by auto
qed

theorem speech_source_is_synchronized_witness:
  "speech_source AudioReader_default \<and> sync_speech_source AudioReader_default \<and>
   audio_bundle AudioReader_default lib_ex example_ex = Inr data_ex \<and>
   (\<exists>xs. map_of data_ex ''speech_source'' = Some (PArr [2, 7] xs) \<and> length xs = 14)"
proof -
  from speech_source_is_synchronized [OF default_flags(2,3) audio_bundle_example]
  obtain off ns offs T xs where
      off: "getitem (PDict example_ex) ''offset'' = Inr off"
    and ns: "getitem (PDict example_ex) ''num_samples'' = Inr ns"
    and T: "getitem ns ''observation'' = Inr (PInt T)"
    and offs: "as_ints off = Some offs"
    and src: "map_of data_ex ''speech_source'' = Some (PArr [length offs, nat T] xs)"
    and len: "length xs = length offs * nat T"
    by auto
  from off have "off = PList [PInt 0, PInt 3]"
    by (simp add: example_ex_def fields_ex_def)
  with offs have offs': "offs = [0, 3]" by (simp add: as_ints_def)
  from ns have "ns = PDict [(''observation'', PInt 7), (''speech_source'', PList [PInt 5, PInt 5])]"
    by (simp add: example_ex_def fields_ex_def)
  with T have T': "T = 7" by simp
  from src len have "map_of data_ex ''speech_source'' = Some (PArr [2, 7] xs) \<and> length xs = 14"
    by (simp add: offs' T')
  with default_flags(2,3) audio_bundle_example show ?thesis by blast
qed

text \<open>
  Claim C6. On a sequence of one-dimensional sources and as many integer offsets the
  synchroniser returns, without an error, an array with one row of length \<open>T\<close> per
  speaker. With \<open>lo = max 0 (- off)\<close> and \<open>hi = min L (T - off)\<close>, position \<open>j\<close>
  of the row holds the source sample \<open>j - off\<close> when \<open>off + lo \<le> j < off + hi\<close> and zero
  otherwise; when \<open>hi \<le> lo\<close> the whole row is zero.
\<close>

theorem synchronizer_row_placement:
  assumes "as_rows src = Some rows" and "as_ints off = Some offs"
    and "length rows = length offs"
  shows "\<exists>data. synchronize_speech_source src off (PInt T)
                   = Inr (PArr [length offs, nat T] data) \<and>
           (\<forall>s<length offs.
              length (take (nat T) (drop (s * nat T) data)) = nat T \<and>
              (\<forall>j<nat T. take (nat T) (drop (s * nat T) data) ! j =
                 (if offs ! s + max 0 (- (offs ! s)) \<le> int j \<and>
                     int j < offs ! s + min (int (length (rows ! s))) (T - offs ! s)
                  then rows ! s ! nat (int j - offs ! s) else 0)) \<and>
              (min (int (length (rows ! s))) (T - offs ! s) \<le> max 0 (- (offs ! s)) \<longrightarrow>
                 take (nat T) (drop (s * nat T) data) = replicate (nat T) 0))"
proof -
  define rs where "rs = map2 (\<lambda>x off. sync_row x off T) rows offs"
  have sync: "synchronize_speech_source src off (PInt T)
                = Inr (PArr [length offs, nat T] (concat rs))"
    using assms by (simp add: synchronize_speech_source_def rs_def)
  have uni: "\<forall>r\<in>set rs. length r = nat T"
    unfolding rs_def by (rule sync_rows_uniform)
  have lrs: "length rs = length offs" using assms(3) by (simp add: rs_def)
  have row: "take (nat T) (drop (s * nat T) (concat rs)) = sync_row (rows ! s) (offs ! s) T"
    if "s < length offs" for s
  proof -
    have "take (nat T) (drop (s * nat T) (concat rs)) = rs ! s"
      using concat_chunk [OF uni] that lrs by simp
    also have "\<dots> = sync_row (rows ! s) (offs ! s) T"
      using that assms(3) by (simp add: rs_def)
    finally show ?thesis .
  qed
  have "length (take (nat T) (drop (s * nat T) (concat rs))) = nat T \<and>
        (\<forall>j<nat T. take (nat T) (drop (s * nat T) (concat rs)) ! j =
           (if offs ! s + max 0 (- (offs ! s)) \<le> int j \<and>
               int j < offs ! s + min (int (length (rows ! s))) (T - offs ! s)
            then rows ! s ! nat (int j - offs ! s) else 0)) \<and>
        (min (int (length (rows ! s))) (T - offs ! s) \<le> max 0 (- (offs ! s)) \<longrightarrow>
           take (nat T) (drop (s * nat T) (concat rs)) = replicate (nat T) 0)"
    if "s < length offs" for s
    unfolding row [OF that]
    using sync_row_nth [of _ T "rows ! s" "offs ! s"]
      sync_row_empty [of "rows ! s" T "offs ! s"]
    by (simp add: length_sync_row sync_lo_def sync_hi_def)
  with sync show ?thesis by blast
qed

theorem synchronizer_row_placement_witness:
  "as_rows sources_ex = Some [[1, 2, 3, 4, 5]] \<and>
   as_ints (PList [PInt (- 2)] :: int py) = Some [- 2] \<and>
   synchronize_speech_source sources_ex (PList [PInt (- 2)]) (PInt 3)
     = Inr (PArr [1, 3] [3, 4, 5])"
proof -
  have r: "as_rows sources_ex = Some [[1, 2, 3, 4, 5]]"
    by (simp add: as_rows_def sources_ex_def)
  have i: "as_ints (PList [PInt (- 2)] :: int py) = Some [- 2]"
    by (simp add: as_ints_def)
  have l: "length [[1, 2, 3, 4, 5 :: int]] = length [- 2 :: int]" by simp
  from synchronizer_row_placement [OF r i l, of 3] obtain data where
      s: "synchronize_speech_source sources_ex (PList [PInt (- 2)]) (PInt 3)
            = Inr (PArr [1, 3] data)"
    by auto
  have "synchronize_speech_source sources_ex (PList [PInt (- 2)]) (PInt 3)
          = Inr (PArr [1, 3] [3, 4, 5])"
    by (simp add: synchronize_speech_source_def r i sync_row_def sync_lo_def sync_hi_def)
  with r i s show ?thesis by simp
qed

text \<open>
  Claim C7, as amended. A file reference is loaded as the array of its file with the
  axes reversed: shape \<open>(C, S)\<close> for a file read as \<open>S\<close> frames of \<open>C\<close> channels,
  and the one-dimensional array itself for a mono file. A non-empty sequence whose
  elements load to arrays of one shape is loaded as their stack, with a new first axis
  whose size is the length of the sequence; in general a sequence is loaded as
  \<^verbatim>\<open>np.array\<close> of the loaded elements, and the empty sequence as the empty array of
  shape \<open>(0)\<close>. A mapping is loaded, exactly when all its values are, as a mapping with
  the same keys in the same order, each value being the loaded value. Hence a nested
  input loads to the value that is faithful to it, at every depth.
\<close>

theorem loader_preserves_structure:
  "(is_file f \<and> soundfile_read L f = Inr (fsh, xs) \<longrightarrow>
      rec_audio_read L f = Inr (transpose_T fsh xs) \<and>
      arr_shape (transpose_T fsh xs) = Some (rev fsh)) \<and>
   (is_file f \<and> soundfile_read L f = Inr ([S, C], xs) \<longrightarrow>
      (\<exists>ys. rec_audio_read L f = Inr (PArr [C, S] ys) \<and> length ys = C * S \<and>
            (\<forall>c<C. \<forall>s<S. ys ! (c * S + s) = xs ! (s * C + c)))) \<and>
   (is_file f \<and> soundfile_read L f = Inr ([S], xs) \<and> length xs = S \<longrightarrow>
      rec_audio_read L f = Inr (PArr [S] xs)) \<and>
   (fs \<noteq> [] \<and> list_all2 (\<lambda>f d. rec_audio_read L f = Inr (PArr sh d)) fs ds \<longrightarrow>
      rec_audio_read L (PList fs) = Inr (PArr (length fs # sh) (concat ds))) \<and>
   (read_each L fs = Inr vs \<longrightarrow> rec_audio_read L (PList fs) = np_array L vs) \<and>
   rec_audio_read L (PList []) = Inr (PArr [0] []) \<and>
   (rec_audio_read L (PDict kvs) = Inr r \<longleftrightarrow>
      (\<exists>kvs'. r = PDict kvs' \<and> map fst kvs' = map fst kvs \<and>
         list_all2 (\<lambda>f v. rec_audio_read L f = Inr v) (map snd kvs) (map snd kvs'))) \<and>
   (faithful L ref out \<longrightarrow> rec_audio_read L ref = Inr out)"
proof (intro conjI impI)
  assume a: "is_file f \<and> soundfile_read L f = Inr (fsh, xs)"
  then show "rec_audio_read L f = Inr (transpose_T fsh xs)"
    by (simp add: rec_audio_read_file read_file_def)
  show "arr_shape (transpose_T fsh xs) = Some (rev fsh)"
    by (simp add: transpose_T_def)
next
  assume a: "is_file f \<and> soundfile_read L f = Inr ([S, C], xs)"
  from transpose_T_2d [of S C xs] obtain ys where
    "transpose_T [S, C] xs = PArr [C, S] ys" "length ys = C * S"
    "\<forall>c<C. \<forall>s<S. ys ! (c * S + s) = xs ! (s * C + c)"
    by blast
  with a show "\<exists>ys. rec_audio_read L f = Inr (PArr [C, S] ys) \<and> length ys = C * S \<and>
            (\<forall>c<C. \<forall>s<S. ys ! (c * S + s) = xs ! (s * C + c))"
    by (simp add: rec_audio_read_file read_file_def)
next
  assume a: "is_file f \<and> soundfile_read L f = Inr ([S], xs) \<and> length xs = S"
  then show "rec_audio_read L f = Inr (PArr [S] xs)"
    by (simp add: rec_audio_read_file read_file_def transpose_T_1d)
next
  assume a: "fs \<noteq> [] \<and> list_all2 (\<lambda>f d. rec_audio_read L f = Inr (PArr sh d)) fs ds"
  then have "list_all2 (\<lambda>f v. rec_audio_read L f = Inr v) fs (map (PArr sh) ds)"
    by (simp add: list_all2_map2)
  then have each: "read_each L fs = Inr (map (PArr sh) ds)"
    by (simp add: read_each_Inr)
  from a have len: "length ds = length fs" by (auto dest: list_all2_lengthD)
  have "list_all2 (\<lambda>v d. v = PArr sh d) (map (PArr sh) ds) ds"
    by (simp add: list_all2_map1 list_all2_same)
  moreover from a len have "map (PArr sh) ds \<noteq> []" by auto
  ultimately have "np_array L (map (PArr sh) ds)
                     = Inr (PArr (length (map (PArr sh) ds) # sh) (concat ds))"
    by (rule np_array_stack [rotated])
  with each len show "rec_audio_read L (PList fs) = Inr (PArr (length fs # sh) (concat ds))"
    by simp
next
  assume "read_each L fs = Inr vs"
  then show "rec_audio_read L (PList fs) = np_array L vs" by simp
next
  show "rec_audio_read L (PList []) = Inr (PArr [0] [])"
    by (simp add: np_array_def)
next
  show "rec_audio_read L (PDict kvs) = Inr r \<longleftrightarrow>
      (\<exists>kvs'. r = PDict kvs' \<and> map fst kvs' = map fst kvs \<and>
         list_all2 (\<lambda>f v. rec_audio_read L f = Inr v) (map snd kvs) (map snd kvs'))"
    by (auto simp add: and_then_Inr_iff read_items_Inr)
next
  assume "faithful L ref out"
  then show "rec_audio_read L ref = Inr out" by (rule faithful_is_loaded(1))
qed

theorem loader_preserves_structure_witness:
  "rec_audio_read lib_ex (PStr ''s0'') = Inr (PArr [5] [1, 2, 3, 4, 5]) \<and>
   (\<exists>ys. rec_audio_read lib_ex (PStr ''obs'') = Inr (PArr [2, 2] ys) \<and> length ys = 4 \<and>
         ys ! (1 * 2 + 0) = [1, 2, 3, 4 :: int] ! (0 * 2 + 1)) \<and>
   rec_audio_read lib_ex (PList [PStr ''e0'', PStr ''e1'']) = Inr (PArr [2, 1, 3] [1, 2, 3, 4, 5, 6]) \<and>
   rec_audio_read lib_ex (PDict tree_ex)
     = Inr (PDict [(''left'', PArr [1, 3] [1, 2, 3]),
                   (''right'', PArr [2, 1, 3] [10, 20, 30, 40, 50, 60])]) \<and>
   faithful lib_ex nest_ex nest_out_ex \<and>
   rec_audio_read lib_ex nest_ex = Inr nest_out_ex"
proof -
  note inst = loader_preserves_structure
    [where L = lib_ex and f = "PStr ''obs''" and S = 2 and C = 2 and xs = "[1, 2, 3, 4]"
       and fs = "[PStr ''e0'', PStr ''e1'']" and sh = "[1, 3]"
       and ds = "[[1, 2, 3], [4, 5, 6]]" and kvs = tree_ex
       and r = "PDict [(''left'', PArr [1, 3] [1, 2, 3]),
                       (''right'', PArr [2, 1, 3] [10, 20, 30, 40, 50, 60])]"
       and ref = nest_ex and out = nest_out_ex]
  note mono_file = loader_preserves_structure
    [where L = lib_ex and f = "PStr ''s0''" and S = 5 and xs = "[1, 2, 3, 4, 5]",
      THEN conjunct2, THEN conjunct2, THEN conjunct1, THEN mp]
  note two_dim = inst [THEN conjunct2, THEN conjunct1, THEN mp]
    and stack = inst [THEN conjunct2, THEN conjunct2, THEN conjunct2, THEN conjunct1, THEN mp]
    and mapping = inst [THEN conjunct2, THEN conjunct2, THEN conjunct2, THEN conjunct2,
                        THEN conjunct2, THEN conjunct2, THEN conjunct1, THEN iffD2]
    and nested = inst [THEN conjunct2, THEN conjunct2, THEN conjunct2, THEN conjunct2,
                       THEN conjunct2, THEN conjunct2, THEN conjunct2, THEN mp]
  have "is_file (PStr ''s0'' :: int py) \<and> soundfile_read lib_ex (PStr ''s0'') = Inr ([5], [1, 2, 3, 4, 5])
          \<and> length [1, 2, 3, 4, 5 :: int] = 5"
    by (simp add: lib_ex_def files_ex_def)
  from mono_file [OF this] have p0: "rec_audio_read lib_ex (PStr ''s0'') = Inr (PArr [5] [1, 2, 3, 4, 5])" .
  have f: "is_file (PStr ''obs'' :: int py) \<and> soundfile_read lib_ex (PStr ''obs'') = Inr ([2, 2], [1, 2, 3, 4])"
    by (simp add: lib_ex_def files_ex_def)
  have e0: "rec_audio_read lib_ex (PStr ''e0'') = Inr (PArr [1, 3] [1, 2, 3])" by code_simp
  have e1: "rec_audio_read lib_ex (PStr ''e1'') = Inr (PArr [1, 3] [4, 5, 6])" by code_simp
  have t: "rec_audio_read lib_ex (PList [PStr ''t0'', PStr ''t1''])
             = Inr (PArr [2, 1, 3] [10, 20, 30, 40, 50, 60])" by code_simp
  from two_dim [OF f] obtain ys where
      y1: "rec_audio_read lib_ex (PStr ''obs'') = Inr (PArr [2, 2] ys)"
    and y2: "length ys = 2 * 2"
    and y3: "\<forall>c<2. \<forall>s<2. ys ! (c * 2 + s) = [1, 2, 3, 4 :: int] ! (s * 2 + c)"
    by blast
  from y3 [rule_format, of 1 0] have "ys ! (1 * 2 + 0) = [1, 2, 3, 4 :: int] ! (0 * 2 + 1)"
    by simp
  with y1 y2 have p1: "\<exists>ys. rec_audio_read lib_ex (PStr ''obs'') = Inr (PArr [2, 2] ys) \<and>
         length ys = 4 \<and> ys ! (1 * 2 + 0) = [1, 2, 3, 4 :: int] ! (0 * 2 + 1)"
    by (intro exI [of _ ys]) simp
  have "[PStr ''e0'', PStr ''e1''] \<noteq> ([] :: int py list) \<and>
        list_all2 (\<lambda>f d. rec_audio_read lib_ex f = Inr (PArr [1, 3] d))
          [PStr ''e0'', PStr ''e1''] [[1, 2, 3], [4, 5, 6]]"
    by (simp add: e0 e1 del: rec_audio_read.simps)
  from stack [OF this] have p2: "rec_audio_read lib_ex (PList [PStr ''e0'', PStr ''e1''])
                       = Inr (PArr [2, 1, 3] [1, 2, 3, 4, 5, 6])"
    by (simp del: rec_audio_read.simps)
  have "\<exists>kvs'. PDict [(''left'', PArr [1, 3] [1, 2, 3]),
                      (''right'', PArr [2, 1, 3] [10, 20, 30, 40, 50, 60])] = PDict kvs' \<and>
           map fst kvs' = map fst tree_ex \<and>
           list_all2 (\<lambda>f v. rec_audio_read lib_ex f = Inr v) (map snd tree_ex) (map snd kvs')"
    by (intro exI [of _ "[(''left'', PArr [1, 3] [1, 2, 3]),
                      (''right'', PArr [2, 1, 3] [10, 20, 30, 40, 50, 60])]"])
       (simp add: tree_ex_def e0 t del: rec_audio_read.simps)
  from mapping [OF this] have p3: "rec_audio_read lib_ex (PDict tree_ex)
     = Inr (PDict [(''left'', PArr [1, 3] [1, 2, 3]),
                   (''right'', PArr [2, 1, 3] [10, 20, 30, 40, 50, 60])])" .
  from nested [OF faithful_nest_ex] have p4: "rec_audio_read lib_ex nest_ex = Inr nest_out_ex" .
  from p0 p1 p2 p3 faithful_nest_ex p4 show ?thesis by (intro conjI)
qed

text \<open>
  The loader does not always return a \<open>(channels, samples)\<close> array for a file, nor a
  stack for a sequence: the mono file \<open>s0\<close> is loaded as a one-dimensional array of
  five samples, and the sequence of \<open>s0\<close> and \<open>s2\<close>, two sources of different
  lengths, is not stacked (here \<^verbatim>\<open>np.array\<close> raises).
\<close>

theorem loader_structure_counterexample:
  "is_file (PStr ''s0'' :: int py) \<and>
   rec_audio_read lib_ex (PStr ''s0'') = Inr (PArr [5] [1, 2, 3, 4, 5]) \<and>
   rec_audio_read lib_ex (PStr ''s2'') = Inr (PArr [3] [7, 8, 9]) \<and>
   rec_audio_read lib_ex (PList [PStr ''s0'', PStr ''s2''])
     = Inl (ValueError ''inhomogeneous shape'')"
  by code_simp



end
